theory Spec2Isabelle
  imports Main "HOL-Library.Word"
begin

unbundle bit_operations_syntax

section \<open>Python values\<close>

text \<open>
  The values the ingestion handler of \<^verbatim>\<open>put_first_translation/lambda_function.py\<close>
  works on: what \<^verbatim>\<open>json.loads\<close> produces (without floats), with dictionaries kept as
  association lists in insertion order. A string is a list of code points below 256.
\<close>

type_synonym byte = "8 word"
type_synonym u32 = "32 word"

datatype pyval =
    PNone
  | PBool bool
  | PInt int
  | PStr string
  | PList "pyval list"
  | PDict "(string \<times> pyval) list"

text \<open>A raised exception: its class name and the text of \<^verbatim>\<open>str(e)\<close>.\<close>

datatype exn = Exn (exn_class: string) (exn_str: string)

subsection \<open>Dictionary access\<close>

text \<open>\<^verbatim>\<open>d.get(k)\<close>: \<^verbatim>\<open>None\<close> for a missing key, AttributeError when \<^verbatim>\<open>d\<close> is no dict.\<close>

definition dict_get :: "(string \<times> pyval) list \<Rightarrow> string \<Rightarrow> pyval" where
  "dict_get kvs k = (case map_of kvs k of None \<Rightarrow> PNone | Some v \<Rightarrow> v)"

fun py_get :: "pyval \<Rightarrow> string \<Rightarrow> exn + pyval" where
  "py_get (PDict kvs) k = Inr (dict_get kvs k)"
| "py_get _ k = Inl (Exn ''AttributeError'' ''object has no attribute get'')"

text \<open>Truth value of a Python object, as \<^verbatim>\<open>if body.get("title")\<close> tests it.\<close>

fun truthy :: "pyval \<Rightarrow> bool" where
  "truthy PNone = False"
| "truthy (PBool b) = b"
| "truthy (PInt i) = (i \<noteq> 0)"
| "truthy (PStr s) = (s \<noteq> [])"
| "truthy (PList xs) = (xs \<noteq> [])"
| "truthy (PDict kvs) = (kvs \<noteq> [])"

subsection \<open>The functions \<^verbatim>\<open>repr\<close> and \<^verbatim>\<open>str\<close>\<close>

definition hex_digit :: "nat \<Rightarrow> char" where
  "hex_digit n = ''0123456789abcdef'' ! (n mod 16)"

fun dec_nat :: "nat \<Rightarrow> string" where
  "dec_nat n = (if n < 10 then [hex_digit n] else dec_nat (n div 10) @ [hex_digit (n mod 10)])"

definition dec_int :: "int \<Rightarrow> string" where
  "dec_int i = (if i < 0 then ''-'' @ dec_nat (nat (- i)) else dec_nat (nat i))"

definition squote :: char where "squote = CHR 0x27"
definition dquote :: char where "dquote = CHR 0x22"
definition bslash :: char where "bslash = CHR 0x5C"

text \<open>
  CPython's \<^verbatim>\<open>unicode_repr\<close>: single quotes, unless the string has a single quote and no
  double quote; the quote and the backslash escaped; tab, newline and carriage return by letter;
  the other non-printable code points below 256 (controls, 0x7f to 0xa0, 0xad) as \<^verbatim>\<open>\xNN\<close>.
\<close>

definition repr_quote :: "string \<Rightarrow> char" where
  "repr_quote s = (if squote \<in> set s \<and> dquote \<notin> set s then dquote else squote)"

definition printable :: "char \<Rightarrow> bool" where
  "printable c = (let n = (of_char c :: nat) in
     \<not> (n < 32 \<or> (127 \<le> n \<and> n \<le> 160) \<or> n = 173))"

definition repr_char :: "char \<Rightarrow> char \<Rightarrow> string" where
  "repr_char q c =
     (if c = q \<or> c = bslash then [bslash, c]
      else if c = CHR 0x09 then [bslash, CHR ''t'']
      else if c = CHR 0x0A then [bslash, CHR ''n'']
      else if c = CHR 0x0D then [bslash, CHR ''r'']
      else if \<not> printable c
        then [bslash, CHR ''x'', hex_digit (of_char c div 16), hex_digit (of_char c mod 16)]
      else [c])"

definition repr_str :: "string \<Rightarrow> string" where
  "repr_str s = (let q = repr_quote s in [q] @ concat (map (repr_char q) s) @ [q])"

fun join :: "string \<Rightarrow> string list \<Rightarrow> string" where
  "join sep [] = []"
| "join sep [x] = x"
| "join sep (x # y # ys) = x @ sep @ join sep (y # ys)"

fun py_repr :: "pyval \<Rightarrow> string" where
  "py_repr PNone = ''None''"
| "py_repr (PBool b) = (if b then ''True'' else ''False'')"
| "py_repr (PInt i) = dec_int i"
| "py_repr (PStr s) = repr_str s"
| "py_repr (PList xs) = ''['' @ join '', '' (map py_repr xs) @ '']''"
| "py_repr (PDict kvs) =
     ''{'' @ join '', '' (map (\<lambda>(k, v). repr_str k @ '': '' @ py_repr v) kvs) @ ''}''"

text \<open>\<^verbatim>\<open>str(v)\<close>: a string is itself, everything else is its \<^verbatim>\<open>repr\<close>.\<close>

fun py_str :: "pyval \<Rightarrow> string" where
  "py_str (PStr s) = s"
| "py_str v = py_repr v"

text \<open>
  \<^verbatim>\<open>d[k]\<close> with a string key: KeyError for a missing key, whose \<^verbatim>\<open>str\<close> is the \<^verbatim>\<open>repr\<close>
  of the key; TypeError when \<^verbatim>\<open>d\<close> is no dict.
\<close>

fun py_item :: "pyval \<Rightarrow> string \<Rightarrow> exn + pyval" where
  "py_item (PDict kvs) k =
     (case map_of kvs k of None \<Rightarrow> Inl (Exn ''KeyError'' (repr_str k)) | Some v \<Rightarrow> Inr v)"
| "py_item _ k = Inl (Exn ''TypeError'' ''object is not subscriptable by a string'')"

subsection \<open>UTF-8 and hexadecimal\<close>

definition utf8_char :: "char \<Rightarrow> byte list" where
  "utf8_char c = (let n = (of_char c :: nat) in
     if n < 128 then [of_nat n] else [of_nat (192 + n div 64), of_nat (128 + n mod 64)])"

definition utf8 :: "string \<Rightarrow> byte list" where
  "utf8 s = concat (map utf8_char s)"

text \<open>\<^verbatim>\<open>bytes.hex()\<close>: two lowercase digits for every byte.\<close>

definition hex_byte :: "byte \<Rightarrow> string" where
  "hex_byte b = [hex_digit (unat b div 16), hex_digit (unat b mod 16)]"

definition hex :: "byte list \<Rightarrow> string" where
  "hex bs = concat (map hex_byte bs)"

section \<open>SHA-256\<close>

text \<open>\<^verbatim>\<open>hashlib.sha256(m).digest()\<close>, after FIPS 180-4, on 32-bit words.\<close>

definition rotr :: "nat \<Rightarrow> u32 \<Rightarrow> u32" where
  "rotr n x = drop_bit n x OR push_bit (32 - n) x"

definition Ch :: "u32 \<Rightarrow> u32 \<Rightarrow> u32 \<Rightarrow> u32" where
  "Ch x y z = (x AND y) XOR (NOT x AND z)"

definition Maj :: "u32 \<Rightarrow> u32 \<Rightarrow> u32 \<Rightarrow> u32" where
  "Maj x y z = (x AND y) XOR (x AND z) XOR (y AND z)"

definition Sigma0 :: "u32 \<Rightarrow> u32" where
  "Sigma0 x = rotr 2 x XOR rotr 13 x XOR rotr 22 x"

definition Sigma1 :: "u32 \<Rightarrow> u32" where
  "Sigma1 x = rotr 6 x XOR rotr 11 x XOR rotr 25 x"

definition sigma0 :: "u32 \<Rightarrow> u32" where
  "sigma0 x = rotr 7 x XOR rotr 18 x XOR drop_bit 3 x"

definition sigma1 :: "u32 \<Rightarrow> u32" where
  "sigma1 x = rotr 17 x XOR rotr 19 x XOR drop_bit 10 x"

definition K256 :: "u32 list" where
  "K256 =
    [0x428A2F98, 0x71374491, 0xB5C0FBCF, 0xE9B5DBA5,
     0x3956C25B, 0x59F111F1, 0x923F82A4, 0xAB1C5ED5,
     0xD807AA98, 0x12835B01, 0x243185BE, 0x550C7DC3,
     0x72BE5D74, 0x80DEB1FE, 0x9BDC06A7, 0xC19BF174,
     0xE49B69C1, 0xEFBE4786, 0x0FC19DC6, 0x240CA1CC,
     0x2DE92C6F, 0x4A7484AA, 0x5CB0A9DC, 0x76F988DA,
     0x983E5152, 0xA831C66D, 0xB00327C8, 0xBF597FC7,
     0xC6E00BF3, 0xD5A79147, 0x06CA6351, 0x14292967,
     0x27B70A85, 0x2E1B2138, 0x4D2C6DFC, 0x53380D13,
     0x650A7354, 0x766A0ABB, 0x81C2C92E, 0x92722C85,
     0xA2BFE8A1, 0xA81A664B, 0xC24B8B70, 0xC76C51A3,
     0xD192E819, 0xD6990624, 0xF40E3585, 0x106AA070,
     0x19A4C116, 0x1E376C08, 0x2748774C, 0x34B0BCB5,
     0x391C0CB3, 0x4ED8AA4A, 0x5B9CCA4F, 0x682E6FF3,
     0x748F82EE, 0x78A5636F, 0x84C87814, 0x8CC70208,
     0x90BEFFFA, 0xA4506CEB, 0xBEF9A3F7, 0xC67178F2]"

fun be32 :: "byte list \<Rightarrow> u32 list" where
  "be32 (a # b # c # d # rest) =
     (push_bit 24 (ucast a) OR push_bit 16 (ucast b) OR push_bit 8 (ucast c) OR ucast d)
       # be32 rest"
| "be32 _ = []"

fun schedule :: "nat \<Rightarrow> u32 list \<Rightarrow> u32 list" where
  "schedule 0 w = w"
| "schedule (Suc n) w =
     schedule n (w @ [sigma1 (w ! (length w - 2)) + w ! (length w - 7)
                      + sigma0 (w ! (length w - 15)) + w ! (length w - 16)])"

type_synonym hstate = "u32 \<times> u32 \<times> u32 \<times> u32 \<times> u32 \<times> u32 \<times> u32 \<times> u32"

fun round256 :: "hstate \<Rightarrow> u32 \<times> u32 \<Rightarrow> hstate" where
  "round256 (a, b, c, d, e, f, g, h) (k, w) =
     (h + Sigma1 e + Ch e f g + k + w + (Sigma0 a + Maj a b c), a, b, c,
      d + (h + Sigma1 e + Ch e f g + k + w), e, f, g)"

fun add_state :: "hstate \<Rightarrow> hstate \<Rightarrow> hstate" where
  "add_state (a, b, c, d, e, f, g, h) (a', b', c', d', e', f', g', h') =
     (a + a', b + b', c + c', d + d', e + e', f + f', g + g', h + h')"

definition compress :: "hstate \<Rightarrow> byte list \<Rightarrow> hstate" where
  "compress s block = add_state s (foldl round256 s (zip K256 (schedule 48 (be32 block))))"

fun blocks :: "nat \<Rightarrow> byte list \<Rightarrow> byte list list" where
  "blocks 0 bs = []"
| "blocks (Suc n) bs = take 64 bs # blocks n (drop 64 bs)"

definition len_bytes :: "nat \<Rightarrow> byte list" where
  "len_bytes n = map (\<lambda>i. ucast (drop_bit (8 * (7 - i)) (of_nat n :: 64 word))) [0..<8]"

definition pad :: "byte list \<Rightarrow> byte list" where
  "pad m = m @ [0x80] @ replicate ((119 - length m mod 64) mod 64) 0
             @ len_bytes (8 * length m)"

definition H0 :: hstate where
  "H0 = (0x6A09E667, 0xBB67AE85, 0x3C6EF372, 0xA54FF53A,
         0x510E527F, 0x9B05688C, 0x1F83D9AB, 0x5BE0CD19)"

definition word_bytes :: "u32 \<Rightarrow> byte list" where
  "word_bytes w = [ucast (drop_bit 24 w), ucast (drop_bit 16 w), ucast (drop_bit 8 w), ucast w]"

fun state_bytes :: "hstate \<Rightarrow> byte list" where
  "state_bytes (a, b, c, d, e, f, g, h) = concat (map word_bytes [a, b, c, d, e, f, g, h])"

definition sha256 :: "byte list \<Rightarrow> byte list" where
  "sha256 m = state_bytes (foldl compress H0 (blocks (length (pad m) div 64) (pad m)))"

text \<open>\<^verbatim>\<open>HTDatabase.compute_checksum\<close>: the digest of the UTF-8 bytes of \<^verbatim>\<open>str(data)\<close>.\<close>

definition compute_checksum :: "pyval \<Rightarrow> byte list" where
  "compute_checksum data = sha256 (utf8 (py_str data))"

subsection \<open>The function \<^verbatim>\<open>json.dumps\<close>\<close>

text \<open>
  With the default \<^verbatim>\<open>ensure_ascii\<close>: everything outside the range from the space to the
  tilde is escaped, by letter where JSON has one, as \<^verbatim>\<open>\u00NN\<close> otherwise.
\<close>

definition json_char :: "char \<Rightarrow> string" where
  "json_char c =
     (if c = dquote \<or> c = bslash then [bslash, c]
      else if c = CHR 0x0A then [bslash, CHR ''n'']
      else if c = CHR 0x0D then [bslash, CHR ''r'']
      else if c = CHR 0x09 then [bslash, CHR ''t'']
      else if c = CHR 0x0C then [bslash, CHR ''f'']
      else if c = CHR 0x08 then [bslash, CHR ''b'']
      else if (of_char c :: nat) < 32 \<or> 126 < (of_char c :: nat)
        then [bslash, CHR ''u'', CHR ''0'', CHR ''0'',
              hex_digit (of_char c div 16), hex_digit (of_char c mod 16)]
      else [c])"

definition json_string :: "string \<Rightarrow> string" where
  "json_string s = [dquote] @ concat (map json_char s) @ [dquote]"

fun json_dumps :: "pyval \<Rightarrow> string" where
  "json_dumps PNone = ''null''"
| "json_dumps (PBool b) = (if b then ''true'' else ''false'')"
| "json_dumps (PInt i) = dec_int i"
| "json_dumps (PStr s) = json_string s"
| "json_dumps (PList xs) = ''['' @ join '', '' (map json_dumps xs) @ '']''"
| "json_dumps (PDict kvs) =
     ''{'' @ join '', '' (map (\<lambda>(k, v). json_string k @ '': '' @ json_dumps v) kvs) @ ''}''"

section \<open>The store\<close>

text \<open>
  The MySQL store is reached through \<^verbatim>\<open>pymysql\<close>; neither is code of the repository. The
  model keeps what the statements of the handler read and write: the rows of
  \<^verbatim>\<open>translations\<close> and the status of each row of \<^verbatim>\<open>HighTimes\<close>. A column holds the
  parameter that was bound to it: a Python value, or the bytes of a \<^verbatim>\<open>bytes\<close> object.
\<close>

datatype sqlparam = Val pyval | Bytes "byte list"

record row =
  text_id :: sqlparam
  content :: sqlparam
  providers_id :: sqlparam
  lang_to :: sqlparam
  lang_from :: sqlparam
  checksum :: sqlparam

datatype conn_state = Unopened | Opened | Closed

record world =
  translations_tbl :: "row list"
  hightimes_tbl :: "(sqlparam \<times> string) list"
  cnx :: conn_state
  logged :: "string list"

text \<open>
  The \<^verbatim>\<open>=\<close> of a WHERE clause: NULL equals nothing; character and binary values are
  compared by their bytes; any other value equals only itself.
\<close>

fun sql_bytes :: "sqlparam \<Rightarrow> byte list option" where
  "sql_bytes (Bytes bs) = Some bs"
| "sql_bytes (Val (PStr s)) = Some (utf8 s)"
| "sql_bytes (Val _) = None"

definition sql_eq :: "sqlparam \<Rightarrow> sqlparam \<Rightarrow> bool" where
  "sql_eq a b =
     (a \<noteq> Val PNone \<and> b \<noteq> Val PNone \<and>
      (case (sql_bytes a, sql_bytes b) of
         (Some x, Some y) \<Rightarrow> x = y
       | (None, None) \<Rightarrow> a = b
       | _ \<Rightarrow> False))"

text \<open>
  \<^verbatim>\<open>SELECT COUNT(*) FROM HighTimes.translations WHERE text_id = %s AND checksum = %s\<close>
\<close>

definition select_count :: "row list \<Rightarrow> sqlparam \<Rightarrow> sqlparam \<Rightarrow> nat" where
  "select_count rows i c =
     length (filter (\<lambda>r. sql_eq (text_id r) i \<and> sql_eq (checksum r) c) rows)"

text \<open>
  \<^verbatim>\<open>INSERT INTO translations ... ON DUPLICATE KEY UPDATE ...\<close>

  Modelled from the spec: the unique key of the table \<^verbatim>\<open>translations\<close>, whose schema is not
  in the repository. The spec keys the upsert on \<^verbatim>\<open>textId\<close>: the row is inserted if no row
  has its \<^verbatim>\<open>text_id\<close>, and overwrites the rows that have it otherwise.
\<close>

definition upsert :: "row \<Rightarrow> row list \<Rightarrow> row list" where
  "upsert r rows =
     (if list_ex (\<lambda>r'. sql_eq (text_id r') (text_id r)) rows
      then map (\<lambda>r'. if sql_eq (text_id r') (text_id r) then r else r') rows
      else rows @ [r])"

text \<open>\<^verbatim>\<open>UPDATE HighTimes SET status = 'pending' WHERE id = %s\<close>\<close>

definition set_pending :: "sqlparam \<Rightarrow> (sqlparam \<times> string) list \<Rightarrow> (sqlparam \<times> string) list" where
  "set_pending i tab = map (\<lambda>(j, st). if sql_eq j i then (j, ''pending'') else (j, st)) tab"

section \<open>The environment of an invocation\<close>

text \<open>
  What the handler calls and the repository does not define: \<^verbatim>\<open>json.loads\<close>, whether
  \<^verbatim>\<open>make_connection\<close> (the secret, the token, \<^verbatim>\<open>pymysql.connect\<close>), \<^verbatim>\<open>cnx.cursor()\<close> and
  each \<^verbatim>\<open>cursor.execute\<close> raise, and the text of \<^verbatim>\<open>traceback.format_exc()\<close>. A statement
  that raises leaves the store as it was; the connection commits each statement by itself
  (\<^verbatim>\<open>autocommit=True\<close>).
\<close>

record env =
  json_loads :: "pyval \<Rightarrow> exn + pyval"
  connect_err :: "exn option"
  cursor_err :: "exn option"
  select_err :: "exn option"
  insert_err :: "exn option"
  update_err :: "exn option"
  format_exc :: "exn \<Rightarrow> string"

section \<open>The handler\<close>

definition cors_headers :: pyval where
  "cors_headers = PDict [(''Access-Control-Allow-Origin'', PStr ''*''),
                         (''Access-Control-Allow-Methods'', PStr ''GET,OPTIONS'')]"

text \<open>\<^verbatim>\<open>HTDatabase.log_err\<close>: logs the message and wraps it in a status-400 envelope.\<close>

definition log_err :: "string \<Rightarrow> world \<Rightarrow> pyval \<times> world" where
  "log_err errmsg w =
     (PDict [(''body'', PStr errmsg), (''headers'', cors_headers),
             (''statusCode'', PInt 400), (''isBase64Encoded'', PStr ''false'')],
      w\<lparr>logged := logged w @ [errmsg]\<rparr>)"

definition mismatch_response :: pyval where
  "mismatch_response =
     PDict [(''statusCode'', PInt 500), (''headers'', cors_headers),
            (''body'', PStr ''Data corruption. Checksums are not the same.'')]"

definition exists_response :: pyval where
  "exists_response =
     PDict [(''statusCode'', PInt 200), (''headers'', cors_headers),
            (''body'', PStr ''Article translation already exists.''),
            (''isBase64Encoded'', PStr ''false'')]"

definition success_response :: pyval where
  "success_response =
     PDict [(''body'', PStr ''Data inserted successfully''), (''headers'', cors_headers),
            (''statusCode'', PInt 200), (''isBase64Encoded'', PStr ''false'')]"

definition update_msg :: string where
  "update_msg = ''[ERROR]: Cannot execute update statement.'' @ [CHR 0x0A]"

definition insert_msg :: string where
  "insert_msg = ''[ERROR]: Cannot execute INSERT statement.'' @ [CHR 0x0A]"

definition connect_msg :: string where
  "connect_msg = ''[ERROR]: Cannot connect to the database from the handler.'' @ [CHR 0x0A]"

text \<open>
  The handler of the insert's \<^verbatim>\<open>except\<close> (lines 144 to 147): a dictionary with the one key
  \<^verbatim>\<open>[ERROR]\<close>. \<^verbatim>\<open>translated_data.get('id')\<close> is the \<^verbatim>\<open>id\<close> read from the body.
\<close>

definition insert_failure :: "exn \<Rightarrow> pyval \<Rightarrow> pyval \<Rightarrow> exn + pyval" where
  "insert_failure e event ident =
     (case py_get event ''id'' of
        Inl e' \<Rightarrow> Inl e'
      | Inr eid \<Rightarrow>
          Inr (PDict [(''[ERROR]'',
                 PStr (exn_str e @ '' : '' @ py_str eid @ '' : '' @ py_str ident))]))"

text \<open>The parameters of the INSERT (line 142); the checksum column gets \<^verbatim>\<open>checksum.hex()\<close>.\<close>

definition insert_row :: "pyval \<Rightarrow> string \<Rightarrow> byte list \<Rightarrow> exn + row" where
  "insert_row body json_data cks =
     (case py_get body ''id'' of Inl e \<Rightarrow> Inl e | Inr i \<Rightarrow>
     (case py_get body ''providers_id'' of Inl e \<Rightarrow> Inl e | Inr p \<Rightarrow>
     (case py_get body ''lang_to'' of Inl e \<Rightarrow> Inl e | Inr lt \<Rightarrow>
     (case py_get body ''lang_from'' of Inl e \<Rightarrow> Inl e | Inr lf \<Rightarrow>
        Inr \<lparr>text_id = Val i, content = Val (PStr json_data), providers_id = Val p,
             lang_to = Val lt, lang_from = Val lf, checksum = Val (PStr (hex cks))\<rparr>))))"

text \<open>
  Lines 149 to 164: the status update. The result is the response returned from inside the
  \<^verbatim>\<open>try\<close>, or \<open>None\<close> when control falls through to the success envelope of line 173.
\<close>

definition update_step :: "env \<Rightarrow> pyval \<Rightarrow> world \<Rightarrow> (exn + pyval option) \<times> world" where
  "update_step env body w =
     (case py_get body ''id'' of
        Inl e \<Rightarrow> (case log_err (update_msg @ format_exc env e) w of (r, w') \<Rightarrow> (Inr (Some r), w'))
      | Inr i \<Rightarrow>
          (case update_err env of
             Some e \<Rightarrow>
               (case log_err (update_msg @ format_exc env e) w of (r, w') \<Rightarrow> (Inr (Some r), w'))
           | None \<Rightarrow> (Inr None, w\<lparr>hightimes_tbl := set_pending (Val i) (hightimes_tbl w)\<rparr>)))"

text \<open>Lines 138 to 147, then the status update.\<close>

definition insert_step ::
  "env \<Rightarrow> pyval \<Rightarrow> pyval \<Rightarrow> pyval \<Rightarrow> string \<Rightarrow> byte list \<Rightarrow> world
     \<Rightarrow> (exn + pyval option) \<times> world" where
  "insert_step env event body ident json_data cks w =
     (case insert_row body json_data cks of
        Inl e \<Rightarrow> (map_sum id Some (insert_failure e event ident), w)
      | Inr r \<Rightarrow>
          (case insert_err env of
             Some e \<Rightarrow> (map_sum id Some (insert_failure e event ident), w)
           | None \<Rightarrow> update_step env body (w\<lparr>translations_tbl := upsert r (translations_tbl w)\<rparr>)))"

text \<open>
  The body of the inner \<^verbatim>\<open>try\<close> (lines 98 to 164): the duplicate check, the content blob,
  the insert and the status update. \<^verbatim>\<open>translated_data["id"]\<close> is the \<^verbatim>\<open>id\<close> read from the
  body; the SELECT binds the digest itself.
\<close>

definition inner_body ::
  "env \<Rightarrow> pyval \<Rightarrow> pyval \<Rightarrow> pyval \<Rightarrow> byte list \<Rightarrow> world \<Rightarrow> (exn + pyval option) \<times> world" where
  "inner_body env event body ident cks w =
     (case select_err env of
        Some e \<Rightarrow> (Inl e, w)
      | None \<Rightarrow>
          if select_count (translations_tbl w) (Val ident) (Bytes cks) > 0
          then (Inr (Some exists_response), w)
          else
            (case py_get body ''title'' of Inl e \<Rightarrow> (Inl e, w) | Inr title \<Rightarrow>
            (case py_get body ''text'' of Inl e \<Rightarrow> (Inl e, w) | Inr text \<Rightarrow>
               let loaded = (if truthy title
                             then PDict [(''title'', title), (''text'', text)]
                             else PDict [(''text'', text)]);
                   json_data = json_dumps loaded
               in insert_step env event body ident json_data cks w)))"

text \<open>
  The inner \<^verbatim>\<open>try\<close> with its \<^verbatim>\<open>except\<close> (lines 166 to 171) and the success envelope
  that follows it (lines 173 to 181).
\<close>

definition inner_try ::
  "env \<Rightarrow> pyval \<Rightarrow> pyval \<Rightarrow> pyval \<Rightarrow> byte list \<Rightarrow> world \<Rightarrow> (exn + pyval) \<times> world" where
  "inner_try env event body ident cks w =
     (case inner_body env event body ident cks w of
        (Inl e, w') \<Rightarrow> (case log_err (insert_msg @ format_exc env e) w' of (r, w'') \<Rightarrow> (Inr r, w''))
      | (Inr (Some r), w') \<Rightarrow> (Inr r, w')
      | (Inr None, w') \<Rightarrow> (Inr success_response, w'))"

text \<open>The body of the outer \<^verbatim>\<open>try\<close> (lines 78 to 181).\<close>

definition try_body :: "env \<Rightarrow> pyval \<Rightarrow> pyval \<Rightarrow> world \<Rightarrow> (exn + pyval) \<times> world" where
  "try_body env event body w =
     (case py_get body ''text'' of Inl e \<Rightarrow> (Inl e, w) | Inr text \<Rightarrow>
     (case py_get body ''id'' of Inl e \<Rightarrow> (Inl e, w) | Inr ident \<Rightarrow>
        let translated_data = PDict [(''text'', text), (''id'', ident)];
            cks = compute_checksum translated_data
        in
          (case py_get body ''checksum'' of Inl e \<Rightarrow> (Inl e, w) | Inr supplied \<Rightarrow>
             if supplied \<noteq> PStr (hex cks) then (Inr mismatch_response, w)
             else
               (case connect_err env of
                  Some e \<Rightarrow> (Inl e, w)
                | None \<Rightarrow>
                    (case cursor_err env of
                       Some e \<Rightarrow> (Inl e, w\<lparr>cnx := Opened\<rparr>)
                     | None \<Rightarrow> inner_try env event body ident cks (w\<lparr>cnx := Opened\<rparr>))))))"

text \<open>The outer \<^verbatim>\<open>except\<close> (lines 183 to 188).\<close>

definition outer_try :: "env \<Rightarrow> pyval \<Rightarrow> pyval \<Rightarrow> world \<Rightarrow> pyval \<times> world" where
  "outer_try env event body w =
     (case try_body env event body w of
        (Inl e, w') \<Rightarrow> log_err (connect_msg @ format_exc env e) w'
      | (Inr r, w') \<Rightarrow> (r, w'))"

text \<open>
  The \<^verbatim>\<open>finally\<close> (lines 190 to 194): \<^verbatim>\<open>cnx.close()\<close>, with every exception swallowed,
  the NameError of an unbound \<^verbatim>\<open>cnx\<close> among them.
\<close>

definition finally_close :: "world \<Rightarrow> world" where
  "finally_close w = (if cnx w = Opened then w\<lparr>cnx := Closed\<rparr> else w)"

text \<open>
  \<^verbatim>\<open>handler(event, context)\<close>. \<open>Inl e\<close> is an exception that leaves the handler, \<open>Inr r\<close>
  the returned dictionary. Line 74 stands before the \<^verbatim>\<open>try\<close>.
\<close>

definition handler :: "env \<Rightarrow> pyval \<Rightarrow> world \<Rightarrow> (exn + pyval) \<times> world" where
  "handler env event w =
     (case py_item event ''body'' of
        Inl e \<Rightarrow> (Inl e, w)
      | Inr raw \<Rightarrow>
          (case json_loads env raw of
             Inl e \<Rightarrow> (Inl e, w)
           | Inr body \<Rightarrow>
               (case outer_try env event body w of (r, w') \<Rightarrow> (Inr r, finally_close w'))))"

section \<open>Notions the properties are stated with\<close>

text \<open>The envelope that \<^verbatim>\<open>log_err\<close> builds around a message.\<close>

definition err_envelope :: "string \<Rightarrow> pyval" where
  "err_envelope msg =
     PDict [(''body'', PStr msg), (''headers'', cors_headers),
            (''statusCode'', PInt 400), (''isBase64Encoded'', PStr ''false'')]"

text \<open>The dictionary returned when the INSERT raises.\<close>

definition error_dict :: "string \<Rightarrow> pyval" where
  "error_dict t = PDict [(''[ERROR]'', PStr t)]"


definition final_response :: "pyval \<Rightarrow> bool" where
  "final_response r \<longleftrightarrow>
     r = success_response \<or> r = exists_response \<or> (\<exists>msg. r = err_envelope msg)"

text \<open>The digest the handler recomputes for a body, and the row its INSERT binds.\<close>

definition body_digest :: "(string \<times> pyval) list \<Rightarrow> byte list" where
  "body_digest kvs =
     compute_checksum (PDict [(''text'', dict_get kvs ''text''), (''id'', dict_get kvs ''id'')])"

definition json_data_of :: "(string \<times> pyval) list \<Rightarrow> string" where
  "json_data_of kvs =
     json_dumps (if truthy (dict_get kvs ''title'')
                 then PDict [(''title'', dict_get kvs ''title''), (''text'', dict_get kvs ''text'')]
                 else PDict [(''text'', dict_get kvs ''text'')])"

definition body_row :: "(string \<times> pyval) list \<Rightarrow> string \<Rightarrow> byte list \<Rightarrow> row" where
  "body_row kvs js cks =
     \<lparr>text_id = Val (dict_get kvs ''id''), content = Val (PStr js),
      providers_id = Val (dict_get kvs ''providers_id''),
      lang_to = Val (dict_get kvs ''lang_to''),
      lang_from = Val (dict_get kvs ''lang_from''),
      checksum = Val (PStr (hex cks))\<rparr>"

subsection \<open>The verifier as the spec words it\<close>

text \<open>
  The spec's Checksum Verifier: the digest of the canonical string with the fields in the
  order id, text, compared byte for byte with the decoded hexadecimal digest of the caller.
  Decoding takes digits of either case, as \<^verbatim>\<open>bytes.fromhex\<close> does.
\<close>

definition spec_canonical :: "pyval \<Rightarrow> pyval \<Rightarrow> string" where
  "spec_canonical ident text = py_str (PDict [(''id'', ident), (''text'', text)])"

definition spec_digest :: "pyval \<Rightarrow> pyval \<Rightarrow> byte list" where
  "spec_digest ident text = sha256 (utf8 (spec_canonical ident text))"

definition hex_value :: "char \<Rightarrow> nat option" where
  "hex_value c =
     (let n = (of_char c :: nat) in
      if 48 \<le> n \<and> n \<le> 57 then Some (n - 48)
      else if 97 \<le> n \<and> n \<le> 102 then Some (n - 87)
      else if 65 \<le> n \<and> n \<le> 70 then Some (n - 55)
      else None)"

fun unhex :: "string \<Rightarrow> byte list option" where
  "unhex [] = Some []"
| "unhex [c] = None"
| "unhex (c # d # rest) =
     (case (hex_value c, hex_value d, unhex rest) of
        (Some h, Some l, Some bs) \<Rightarrow> Some (of_nat (16 * h + l) # bs)
      | _ \<Rightarrow> None)"

definition spec_verify :: "pyval \<Rightarrow> byte list \<Rightarrow> bool" where
  "spec_verify supplied digest =
     (case supplied of PStr s \<Rightarrow> unhex s = Some digest | _ \<Rightarrow> False)"

subsection \<open>The scenarios of the spec\<close>

text \<open>
  The request of scenario 1 with a given checksum field, the event that carries a body as
  JSON text, a \<^verbatim>\<open>json.loads\<close> that knows the listed texts, and an environment in which
  the connection opens and the three statements raise as chosen.
\<close>

definition scenario_data :: pyval where
  "scenario_data = PDict [(''text'', PStr ''hello''), (''id'', PStr ''A1'')]"

definition request_kvs :: "pyval \<Rightarrow> (string \<times> pyval) list" where
  "request_kvs c =
     [(''id'', PStr ''A1''), (''text'', PStr ''hello''), (''checksum'', c),
      (''providers_id'', PStr ''p1''), (''lang_to'', PStr ''es''),
      (''lang_from'', PStr ''en'')]"

definition request :: "pyval \<Rightarrow> pyval" where
  "request c = PDict (request_kvs c)"

definition scenario_body :: pyval where
  "scenario_body = request (PStr (hex (compute_checksum scenario_data)))"

definition upper_hex :: string where
  "upper_hex = ''BBB72F5F1DF2A74CCC5BFED9F2DD2836C95547E680EA1C4FCB8A006B28F0A3D3''"

definition bad_body :: pyval where
  "bad_body = request (PStr ''deadbeef'')"

definition event_of :: "pyval \<Rightarrow> pyval" where
  "event_of body = PDict [(''body'', PStr (json_dumps body))]"

fun loads_table :: "(string \<times> pyval) list \<Rightarrow> pyval \<Rightarrow> exn + pyval" where
  "loads_table tab (PStr s) =
     (case map_of tab s of
        None \<Rightarrow> Inl (Exn ''JSONDecodeError'' ''Expecting value'')
      | Some v \<Rightarrow> Inr v)"
| "loads_table tab _ = Inl (Exn ''TypeError'' ''the JSON object must be str, bytes or bytearray'')"

definition trace_text :: "exn \<Rightarrow> string" where
  "trace_text e = ''Traceback (most recent call last): '' @ exn_class e @ '': '' @ exn_str e"

definition env_of :: "pyval \<Rightarrow> exn option \<Rightarrow> exn option \<Rightarrow> exn option \<Rightarrow> env" where
  "env_of body sel ins upd =
     \<lparr>json_loads = loads_table [(json_dumps body, body)],
      connect_err = None, cursor_err = None,
      select_err = sel, insert_err = ins, update_err = upd,
      format_exc = trace_text\<rparr>"

definition db_error :: exn where
  "db_error = Exn ''OperationalError'' ''(2013, Lost connection to MySQL server during query)''"

definition fresh_world :: world where
  "fresh_world =
     \<lparr>translations_tbl = [], hightimes_tbl = [(Val (PStr ''A1''), ''new'')],
      cnx = Unopened, logged = []\<rparr>"

text \<open>The world a later invocation starts in: the store as it is, no connection yet.\<close>

definition next_invocation :: "world \<Rightarrow> world" where
  "next_invocation w = w\<lparr>cnx := Unopened\<rparr>"

section \<open>Facts about the encodings\<close>

lemma length_state_bytes: "length (state_bytes s) = 32"
  by (cases s rule: state_bytes.cases) (simp add: word_bytes_def)

lemma length_sha256: "length (sha256 m) = 32"
  by (simp add: sha256_def length_state_bytes)

lemma length_hex: "length (hex bs) = 2 * length bs"
  by (induction bs) (simp_all add: hex_def hex_byte_def)

lemma length_utf8: "length s \<le> length (utf8 s)"
  by (induction s) (simp_all add: utf8_def utf8_char_def Let_def)

lemma length_hex_checksum: "length (hex (compute_checksum d)) = 64"
  by (simp add: length_hex compute_checksum_def length_sha256)

lemma utf8_hex_neq: "utf8 (hex (sha256 m)) \<noteq> sha256 m"
proof
  assume "utf8 (hex (sha256 m)) = sha256 m"
  then have "length (utf8 (hex (sha256 m))) = 32"
    by (simp add: length_sha256)
  moreover have "64 \<le> length (utf8 (hex (sha256 m)))"
    using length_utf8 [of "hex (sha256 m)"] by (simp add: length_hex length_sha256)
  ultimately show False by simp
qed

lemma hex_digest_no_match:
  "\<not> sql_eq (Val (PStr (hex (compute_checksum d)))) (Bytes (compute_checksum d))"
  by (simp add: sql_eq_def compute_checksum_def utf8_hex_neq)

lemma not_hex_checksum: "length s \<noteq> 64 \<Longrightarrow> (s = hex (compute_checksum d)) = False"
  using length_hex_checksum [of d] by auto

lemma scenario_digest_value:
  "compute_checksum scenario_data =
     [0xBB, 0xB7, 0x2F, 0x5F, 0x1D, 0xF2, 0xA7, 0x4C,
      0xCC, 0x5B, 0xFE, 0xD9, 0xF2, 0xDD, 0x28, 0x36,
      0xC9, 0x55, 0x47, 0xE6, 0x80, 0xEA, 0x1C, 0x4F,
      0xCB, 0x8A, 0x00, 0x6B, 0x28, 0xF0, 0xA3, 0xD3]"
  by code_simp

lemma spec_digest_value:
  "spec_digest (PStr ''A1'') (PStr ''hello'') =
     [0xF7, 0x86, 0x81, 0x55, 0xDB, 0x7E, 0xD7, 0x96,
      0xA3, 0xFA, 0x34, 0xFC, 0x41, 0x6E, 0xCE, 0x05,
      0xED, 0x4B, 0xDD, 0x86, 0xD7, 0xD8, 0xD1, 0xC2,
      0x10, 0xF0, 0xE7, 0xB4, 0xB8, 0x17, 0xB5, 0xE3]"
  by code_simp

section \<open>The handler, step by step\<close>

lemma log_err_eq: "log_err msg w = (err_envelope msg, w\<lparr>logged := logged w @ [msg]\<rparr>)"
  by (simp add: log_err_def err_envelope_def)

lemma update_step_cases:
  "update_step env (PDict kvs) w =
     (case update_err env of
        Some e \<Rightarrow> (Inr (Some (err_envelope (update_msg @ format_exc env e))),
                   w\<lparr>logged := logged w @ [update_msg @ format_exc env e]\<rparr>)
      | None \<Rightarrow> (Inr None,
                 w\<lparr>hightimes_tbl := set_pending (Val (dict_get kvs ''id'')) (hightimes_tbl w)\<rparr>))"
  by (simp add: update_step_def log_err_eq split: option.splits)

lemma insert_row_dict: "insert_row (PDict kvs) js cks = Inr (body_row kvs js cks)"
  by (simp add: insert_row_def body_row_def)

lemma insert_step_cases:
  "insert_step env (PDict evs) (PDict kvs) ident js cks w =
     (case insert_err env of
        Some e \<Rightarrow> (Inr (Some (error_dict (exn_str e @ '' : '' @ py_str (dict_get evs ''id'')
                                           @ '' : '' @ py_str ident))), w)
      | None \<Rightarrow> update_step env (PDict kvs)
                 (w\<lparr>translations_tbl := upsert (body_row kvs js cks) (translations_tbl w)\<rparr>))"
  by (simp add: insert_step_def insert_row_dict insert_failure_def error_dict_def
        split: option.splits)

lemma inner_body_cases:
  "inner_body env (PDict evs) (PDict kvs) ident cks w =
     (case select_err env of
        Some e \<Rightarrow> (Inl e, w)
      | None \<Rightarrow>
          if select_count (translations_tbl w) (Val ident) (Bytes cks) > 0
          then (Inr (Some exists_response), w)
          else insert_step env (PDict evs) (PDict kvs) ident (json_data_of kvs) cks w)"
  by (simp add: inner_body_def json_data_of_def Let_def split: option.splits)

lemma try_body_cases:
  "try_body env (PDict evs) (PDict kvs) w =
     (if dict_get kvs ''checksum'' \<noteq> PStr (hex (body_digest kvs))
      then (Inr mismatch_response, w)
      else
        (case connect_err env of
           Some e \<Rightarrow> (Inl e, w)
         | None \<Rightarrow>
             (case cursor_err env of
                Some e \<Rightarrow> (Inl e, w\<lparr>cnx := Opened\<rparr>)
              | None \<Rightarrow> inner_try env (PDict evs) (PDict kvs) (dict_get kvs ''id'')
                          (body_digest kvs) (w\<lparr>cnx := Opened\<rparr>))))"
  unfolding try_body_def body_digest_def Let_def by simp

lemma handler_cases:
  "handler env (PDict evs) w =
     (case map_of evs ''body'' of
        None \<Rightarrow> (Inl (Exn ''KeyError'' (repr_str ''body'')), w)
      | Some raw \<Rightarrow>
          (case json_loads env raw of
             Inl e \<Rightarrow> (Inl e, w)
           | Inr body \<Rightarrow>
               (Inr (fst (outer_try env (PDict evs) body w)),
                finally_close (snd (outer_try env (PDict evs) body w)))))"
  by (simp add: handler_def split: option.splits sum.splits prod.splits)

lemma inner_try_outcome:
  assumes "inner_try env (PDict evs) (PDict kvs) ident cks w = (x, w')"
  shows "\<exists>r. x = Inr r \<and>
           (final_response r \<or> (insert_err env \<noteq> None \<and> (\<exists>t. r = error_dict t)))"
  using assms
  by (auto simp: inner_try_def inner_body_cases insert_step_cases update_step_cases
        log_err_eq final_response_def split: option.splits if_splits)




lemma upsert_member: "r \<in> set (upsert r rows)"
  by (auto simp: upsert_def list_ex_iff image_iff)

section \<open>Paths through the handler\<close>

lemma py_item_dict:
  assumes "py_item event k = Inr v"
  obtains evs where "event = PDict evs" and "map_of evs k = Some v"
  using assms by (cases event) (auto split: option.splits)

lemma handler_parsed:
  assumes "py_item event ''body'' = Inr raw" and "json_loads env raw = Inr body"
  shows "handler env event w =
           (Inr (fst (outer_try env event body w)), finally_close (snd (outer_try env event body w)))"
  using assms by (simp add: handler_def split: prod.splits)

lemma outer_try_mismatch:
  assumes "dict_get kvs ''checksum'' \<noteq> PStr (hex (body_digest kvs))"
  shows "outer_try env (PDict evs) (PDict kvs) w = (mismatch_response, w)"
  using assms by (simp add: outer_try_def try_body_cases)

lemma outer_try_verified:
  assumes "dict_get kvs ''checksum'' = PStr (hex (body_digest kvs))"
    and "connect_err env = None" and "cursor_err env = None"
  shows "outer_try env (PDict evs) (PDict kvs) w =
           (case inner_try env (PDict evs) (PDict kvs) (dict_get kvs ''id'') (body_digest kvs)
                   (w\<lparr>cnx := Opened\<rparr>) of
              (Inl e, w') \<Rightarrow> log_err (connect_msg @ format_exc env e) w'
            | (Inr r, w') \<Rightarrow> (r, w'))"
  using assms by (simp add: outer_try_def try_body_cases)

lemma inner_try_select_fails:
  assumes "select_err env = Some e"
  shows "inner_try env (PDict evs) (PDict kvs) ident cks w =
           (Inr (err_envelope (insert_msg @ format_exc env e)),
            w\<lparr>logged := logged w @ [insert_msg @ format_exc env e]\<rparr>)"
  using assms by (simp add: inner_try_def inner_body_cases log_err_eq)

lemma inner_try_exists:
  assumes "select_err env = None"
    and "0 < select_count (translations_tbl w) (Val ident) (Bytes cks)"
  shows "inner_try env (PDict evs) (PDict kvs) ident cks w = (Inr exists_response, w)"
  using assms by (simp add: inner_try_def inner_body_cases)

lemma inner_try_insert_fails:
  assumes "select_err env = None"
    and "select_count (translations_tbl w) (Val ident) (Bytes cks) = 0"
    and "insert_err env = Some e"
  shows "inner_try env (PDict evs) (PDict kvs) ident cks w =
           (Inr (error_dict (exn_str e @ '' : '' @ py_str (dict_get evs ''id'')
                             @ '' : '' @ py_str ident)), w)"
  using assms by (simp add: inner_try_def inner_body_cases insert_step_cases)

lemma inner_try_update_fails:
  assumes "select_err env = None"
    and "select_count (translations_tbl w) (Val ident) (Bytes cks) = 0"
    and "insert_err env = None" and "update_err env = Some e"
  shows "inner_try env (PDict evs) (PDict kvs) ident cks w =
           (Inr (err_envelope (update_msg @ format_exc env e)),
            w\<lparr>translations_tbl := upsert (body_row kvs (json_data_of kvs) cks) (translations_tbl w),
              logged := logged w @ [update_msg @ format_exc env e]\<rparr>)"
  using assms
  by (simp add: inner_try_def inner_body_cases insert_step_cases update_step_cases)

lemma inner_try_success:
  assumes "select_err env = None"
    and "select_count (translations_tbl w) (Val ident) (Bytes cks) = 0"
    and "insert_err env = None" and "update_err env = None"
  shows "inner_try env (PDict evs) (PDict kvs) ident cks w =
           (Inr success_response,
            w\<lparr>translations_tbl := upsert (body_row kvs (json_data_of kvs) cks) (translations_tbl w),
              hightimes_tbl := set_pending (Val (dict_get kvs ''id'')) (hightimes_tbl w)\<rparr>)"
  using assms
  by (simp add: inner_try_def inner_body_cases insert_step_cases update_step_cases)

section \<open>Facts about the scenarios\<close>

lemma request_gets:
  "dict_get (request_kvs c) ''id'' = PStr ''A1''"
  "dict_get (request_kvs c) ''text'' = PStr ''hello''"
  "dict_get (request_kvs c) ''checksum'' = c"
  "dict_get (request_kvs c) ''title'' = PNone"
  by (simp_all add: dict_get_def request_kvs_def)

lemma request_digest: "body_digest (request_kvs c) = compute_checksum scenario_data"
  by (simp add: body_digest_def request_gets scenario_data_def)

lemma event_of_item: "py_item (event_of body) ''body'' = Inr (PStr (json_dumps body))"
  by (simp add: event_of_def)

lemma event_of_dict: "event_of body = PDict [(''body'', PStr (json_dumps body))]"
  by (simp add: event_of_def)

lemma event_of_id: "dict_get [(''body'', v)] ''id'' = PNone"
  by (simp add: dict_get_def)

lemma env_of_simps:
  "json_loads (env_of body sel ins upd) (PStr (json_dumps body)) = Inr body"
  "connect_err (env_of body sel ins upd) = None"
  "cursor_err (env_of body sel ins upd) = None"
  "select_err (env_of body sel ins upd) = sel"
  "insert_err (env_of body sel ins upd) = ins"
  "update_err (env_of body sel ins upd) = upd"
  "format_exc (env_of body sel ins upd) = trace_text"
  by (simp_all add: env_of_def)

lemma handler_request:
  "handler (env_of (request c) sel ins upd) (event_of (request c)) w =
     (Inr (fst (outer_try (env_of (request c) sel ins upd)
                  (PDict [(''body'', PStr (json_dumps (request c)))]) (PDict (request_kvs c)) w)),
      finally_close (snd (outer_try (env_of (request c) sel ins upd)
                  (PDict [(''body'', PStr (json_dumps (request c)))]) (PDict (request_kvs c)) w)))"
proof -
  have "handler (env_of (request c) sel ins upd) (event_of (request c)) w =
     (Inr (fst (outer_try (env_of (request c) sel ins upd) (event_of (request c)) (request c) w)),
      finally_close (snd (outer_try (env_of (request c) sel ins upd) (event_of (request c))
        (request c) w)))"
    by (rule handler_parsed [OF event_of_item env_of_simps(1)])
  then show ?thesis
    unfolding event_of_dict by (simp only: request_def)
qed


lemma scenario_hex:
  "hex (compute_checksum scenario_data) =
     ''bbb72f5f1df2a74ccc5bfed9f2dd2836c95547e680ea1c4fcb8a006b28f0a3d3''"
  unfolding scenario_digest_value by code_simp

lemma upper_hex_decodes: "unhex upper_hex = Some (compute_checksum scenario_data)"
  unfolding scenario_digest_value by code_simp

lemma upper_hex_differs: "PStr upper_hex \<noteq> PStr (hex (compute_checksum scenario_data))"
  unfolding scenario_hex by (simp add: upper_hex_def)

lemma scenario_first_call:
  "handler (env_of scenario_body None None None) (event_of scenario_body) fresh_world =
     (Inr success_response,
      \<lparr>translations_tbl =
         [body_row (request_kvs (PStr (hex (compute_checksum scenario_data))))
            (json_data_of (request_kvs (PStr (hex (compute_checksum scenario_data)))))
            (compute_checksum scenario_data)],
       hightimes_tbl = [(Val (PStr ''A1''), ''pending'')], cnx = Closed, logged = []\<rparr>)"
  by (simp add: scenario_body_def handler_request outer_try_verified inner_try_success
        request_gets request_digest env_of_simps fresh_world_def select_count_def
        finally_close_def upsert_def set_pending_def sql_eq_def)

lemma scenario_count:
  "select_count
      [body_row (request_kvs (PStr (hex (compute_checksum scenario_data))))
            (json_data_of (request_kvs (PStr (hex (compute_checksum scenario_data)))))
            (compute_checksum scenario_data)]
      (Val (PStr ''A1'')) (Bytes (compute_checksum scenario_data)) = 0"
  using hex_digest_no_match [of scenario_data]
  by (simp add: select_count_def body_row_def)

lemma scenario_second_call:
  "handler (env_of scenario_body None None None) (event_of scenario_body)
     (next_invocation
       \<lparr>translations_tbl =
         [body_row (request_kvs (PStr (hex (compute_checksum scenario_data))))
            (json_data_of (request_kvs (PStr (hex (compute_checksum scenario_data)))))
            (compute_checksum scenario_data)],
       hightimes_tbl = [(Val (PStr ''A1''), ''pending'')], cnx = Closed, logged = []\<rparr>) =
     (Inr success_response,
      \<lparr>translations_tbl =
         [body_row (request_kvs (PStr (hex (compute_checksum scenario_data))))
            (json_data_of (request_kvs (PStr (hex (compute_checksum scenario_data)))))
            (compute_checksum scenario_data)],
       hightimes_tbl = [(Val (PStr ''A1''), ''pending'')], cnx = Closed, logged = []\<rparr>)"
proof -
  have same: "sql_eq (Val (PStr ''A1'')) (Val (PStr ''A1''))"
    by (simp add: sql_eq_def)
  show ?thesis
    using scenario_count same
    by (simp add: scenario_body_def handler_request outer_try_verified inner_try_success
        request_gets request_digest env_of_simps next_invocation_def
        finally_close_def upsert_def set_pending_def body_row_def)
qed


lemma not_mismatch:
  assumes "final_response r \<or> (\<exists>t. r = error_dict t)"
  shows "r \<noteq> mismatch_response"
  using assms
  by (auto simp: final_response_def success_response_def exists_response_def
        err_envelope_def error_dict_def mismatch_response_def)

lemma outer_try_verified_outcome:
  assumes "dict_get kvs ''checksum'' = PStr (hex (body_digest kvs))"
  shows "fst (outer_try env (PDict evs) (PDict kvs) w) \<noteq> mismatch_response"
proof -
  obtain x w1 where t: "try_body env (PDict evs) (PDict kvs) w = (x, w1)"
    by (cases "try_body env (PDict evs) (PDict kvs) w")
  have "x \<noteq> Inr mismatch_response"
  proof (cases "connect_err env")
    case (Some e)
    with t assms show ?thesis by (auto simp: try_body_cases)
  next
    case None
    show ?thesis
    proof (cases "cursor_err env")
      case (Some e)
      with t assms None show ?thesis by (auto simp: try_body_cases)
    next
      case c: None
      from t assms None c
      have "inner_try env (PDict evs) (PDict kvs) (dict_get kvs ''id'') (body_digest kvs)
              (w\<lparr>cnx := Opened\<rparr>) = (x, w1)"
        by (simp add: try_body_cases)
      from inner_try_outcome [OF this] show ?thesis
        using not_mismatch by auto
    qed
  qed
  show ?thesis
  proof (cases x)
    case (Inl e)
    with t show ?thesis
      by (simp add: outer_try_def log_err_eq err_envelope_def mismatch_response_def)
  next
    case (Inr r')
    with t \<open>x \<noteq> Inr mismatch_response\<close> show ?thesis
      by (simp add: outer_try_def)
  qed
qed

section \<open>The claims\<close>

text \<open>
  Claim C1 (idempotence of ingestion) at the request of scenario 1, submitted twice against
  the same store. The first call inserts. The second call does not answer that the article
  already exists: the duplicate check binds the 32 bytes of the digest, the row holds its 64
  hexadecimal digits, so the check counts no row and the second call inserts again.
\<close>

theorem repeated_submission_inserts_again:
  "(case handler (env_of scenario_body None None None) (event_of scenario_body) fresh_world of
      (r1, w1) \<Rightarrow>
        (case handler (env_of scenario_body None None None) (event_of scenario_body)
                (next_invocation w1) of
           (r2, w2) \<Rightarrow>
             r1 = Inr success_response \<and> r2 = Inr success_response \<and>
             r2 \<noteq> Inr exists_response \<and>
             select_count (translations_tbl w2) (Val (PStr ''A1''))
               (Bytes (compute_checksum scenario_data)) = 0))"
  by (simp add: scenario_first_call scenario_second_call scenario_count
        success_response_def exists_response_def)

text \<open>
  Claim C2 (the stored checksum and the checksum of the duplicate check): for every body the
  INSERT stores the hexadecimal text of the digest in the checksum column, the SELECT of the
  duplicate check binds the digest itself, and the two differ and do not compare equal.
\<close>

theorem stored_checksum_is_hex_not_digest:
  "map_sum id checksum (insert_row (PDict kvs) js (compute_checksum d)) =
     Inr (Val (PStr (hex (compute_checksum d)))) \<and>
   Val (PStr (hex (compute_checksum d))) \<noteq> Bytes (compute_checksum d) \<and>
   \<not> sql_eq (Val (PStr (hex (compute_checksum d)))) (Bytes (compute_checksum d))"
  by (simp add: insert_row_dict body_row_def hex_digest_no_match)

text \<open>
  Claim C3 as the spec words it fails at the request of scenario 1: the digest the handler
  recomputes is not the digest of the string with the fields in the order id, text; and a
  checksum field in upper-case hexadecimal decodes to the very digest, yet the handler answers
  with the checksum mismatch.
\<close>

theorem verifier_counterexample:
  "compute_checksum scenario_data \<noteq> spec_digest (PStr ''A1'') (PStr ''hello'') \<and>
   spec_verify (PStr upper_hex) (compute_checksum scenario_data) \<and>
   fst (handler (env_of (request (PStr upper_hex)) None None None)
          (event_of (request (PStr upper_hex))) fresh_world) = Inr mismatch_response"
proof -
  have "compute_checksum scenario_data \<noteq> spec_digest (PStr ''A1'') (PStr ''hello'')"
    unfolding scenario_digest_value spec_digest_value by simp
  moreover have "spec_verify (PStr upper_hex) (compute_checksum scenario_data)"
    by (simp add: spec_verify_def upper_hex_decodes)
  moreover have "fst (handler (env_of (request (PStr upper_hex)) None None None)
          (event_of (request (PStr upper_hex))) fresh_world) = Inr mismatch_response"
    using upper_hex_differs
    by (simp add: handler_request outer_try_mismatch request_gets request_digest)
  ultimately show ?thesis by simp
qed

text \<open>
  Claim C3, amended (Checksum Verifier): for every body that is a JSON object, the recomputed
  digest is the SHA-256 of the UTF-8 bytes of \<^verbatim>\<open>{'text': <repr of text>, 'id': <repr of id>}\<close>,
  the field text first; the handler answers with the checksum mismatch if and only if the
  checksum field is not the string of the lower-case hexadecimal digits of that digest; and the
  request of scenario 1 whose checksum is that string passes, with status 200, on a store
  with no translation, leaving one row and the source record pending.
\<close>

theorem verifier_contract:
  assumes "py_item event ''body'' = Inr raw" and "json_loads env raw = Inr (PDict kvs)"
  shows "body_digest kvs =
           sha256 (utf8 (''{'' @ [squote] @ ''text'' @ [squote] @ '': ''
                         @ py_repr (dict_get kvs ''text'') @ '', '' @ [squote] @ ''id''
                         @ [squote] @ '': '' @ py_repr (dict_get kvs ''id'') @ ''}'')) \<and>
         (fst (handler env event w) = Inr mismatch_response) =
           (dict_get kvs ''checksum'' \<noteq> PStr (hex (body_digest kvs))) \<and>
         handler (env_of scenario_body None None None) (event_of scenario_body) fresh_world =
           (Inr success_response,
            \<lparr>translations_tbl =
               [body_row (request_kvs (PStr (hex (compute_checksum scenario_data))))
                  (json_data_of (request_kvs (PStr (hex (compute_checksum scenario_data)))))
                  (compute_checksum scenario_data)],
             hightimes_tbl = [(Val (PStr ''A1''), ''pending'')], cnx = Closed, logged = []\<rparr>) \<and>
         py_get success_response ''statusCode'' = Inr (PInt 200)"
proof -
  obtain evs where ev: "event = PDict evs"
    using assms(1) by (rule py_item_dict)
  have digest: "body_digest kvs =
           sha256 (utf8 (''{'' @ [squote] @ ''text'' @ [squote] @ '': ''
                         @ py_repr (dict_get kvs ''text'') @ '', '' @ [squote] @ ''id''
                         @ [squote] @ '': '' @ py_repr (dict_get kvs ''id'') @ ''}''))"
    by (simp add: body_digest_def compute_checksum_def repr_str_def repr_quote_def
          repr_char_def printable_def squote_def dquote_def bslash_def Let_def)
  have h: "handler env event w =
      (Inr (fst (outer_try env event (PDict kvs) w)),
       finally_close (snd (outer_try env event (PDict kvs) w)))"
    using assms by (rule handler_parsed)
  have verdict: "(fst (handler env event w) = Inr mismatch_response) =
           (dict_get kvs ''checksum'' \<noteq> PStr (hex (body_digest kvs)))"
  proof (cases "dict_get kvs ''checksum'' = PStr (hex (body_digest kvs))")
    case True
    with outer_try_verified_outcome [OF True, of env evs w] h show ?thesis
      by (simp add: ev)
  next
    case False
    with h show ?thesis
      by (simp add: ev outer_try_mismatch)
  qed
  have "py_get success_response ''statusCode'' = Inr (PInt 200)"
    by (simp add: success_response_def dict_get_def)
  with digest verdict scenario_first_call show ?thesis
    by simp
qed

text \<open>The verifier's contract at the request of scenario 1.\<close>

theorem verifier_contract_witness:
  "fst (handler (env_of scenario_body None None None) (event_of scenario_body) fresh_world)
     \<noteq> Inr mismatch_response"
proof -
  have a: "py_item (event_of scenario_body) ''body'' = Inr (PStr (json_dumps scenario_body))"
    by (rule event_of_item)
  have b: "json_loads (env_of scenario_body None None None) (PStr (json_dumps scenario_body)) =
             Inr (PDict (request_kvs (PStr (hex (compute_checksum scenario_data)))))"
    using env_of_simps(1) [of scenario_body None None None]
    by (simp only: scenario_body_def request_def)
  from verifier_contract [OF a b, of fresh_world] show ?thesis
    by (simp add: request_gets request_digest success_response_def mismatch_response_def)
qed


text \<open>
  Claim C4 (checksum mismatch): when the checksum field of the body differs from the
  hexadecimal digest the handler recomputes, the handler returns the mismatch response, whose
  status is 500, and the world is as it was: no row written, no status changed, no connection
  opened, nothing logged.
\<close>

theorem checksum_mismatch_no_write:
  assumes "cnx w = Unopened"
    and "py_item event ''body'' = Inr raw" and "json_loads env raw = Inr (PDict kvs)"
    and "dict_get kvs ''checksum'' \<noteq> PStr (hex (body_digest kvs))"
  shows "handler env event w = (Inr mismatch_response, w) \<and>
         py_get mismatch_response ''statusCode'' = Inr (PInt 500)"
proof -
  obtain evs where ev: "event = PDict evs"
    using assms(2) by (rule py_item_dict)
  have "handler env event w =
      (Inr (fst (outer_try env event (PDict kvs) w)),
       finally_close (snd (outer_try env event (PDict kvs) w)))"
    using assms(2,3) by (rule handler_parsed)
  with assms(1,4) have "handler env event w = (Inr mismatch_response, w)"
    by (simp add: ev outer_try_mismatch finally_close_def)
  then show ?thesis
    by (simp add: mismatch_response_def dict_get_def)
qed

text \<open>Scenario 3: the checksum \<^verbatim>\<open>deadbeef\<close>.\<close>

theorem checksum_mismatch_no_write_witness:
  "handler (env_of bad_body None None None) (event_of bad_body) fresh_world =
     (Inr mismatch_response, fresh_world)"
proof -
  have a: "cnx fresh_world = Unopened"
    by (simp add: fresh_world_def)
  have b: "py_item (event_of bad_body) ''body'' = Inr (PStr (json_dumps bad_body))"
    by (rule event_of_item)
  have c: "json_loads (env_of bad_body None None None) (PStr (json_dumps bad_body)) =
             Inr (PDict (request_kvs (PStr ''deadbeef'')))"
    using env_of_simps(1) [of bad_body None None None]
    by (simp only: bad_body_def request_def)
  have d: "dict_get (request_kvs (PStr ''deadbeef'')) ''checksum'' \<noteq>
             PStr (hex (body_digest (request_kvs (PStr ''deadbeef''))))"
    by (simp add: request_gets request_digest not_hex_checksum)
  from checksum_mismatch_no_write [OF a b c d] show ?thesis
    by simp
qed

text \<open>
  Claim C5 (partial failure): when the status update raises after the insert went through,
  the handler returns the status-400 envelope whose body is the update message followed by the
  whole trace text, the row of the insert is in the table of translations, and no status of
  the source records has changed.
\<close>

theorem update_failure_keeps_insert:
  assumes "cnx w = Unopened"
    and "py_item event ''body'' = Inr raw" and "json_loads env raw = Inr (PDict kvs)"
    and "dict_get kvs ''checksum'' = PStr (hex (body_digest kvs))"
    and "connect_err env = None" and "cursor_err env = None" and "select_err env = None"
    and "select_count (translations_tbl w) (Val (dict_get kvs ''id''))
           (Bytes (body_digest kvs)) = 0"
    and "insert_err env = None" and "update_err env = Some e"
  shows "handler env event w =
           (Inr (err_envelope (update_msg @ format_exc env e)),
            w\<lparr>translations_tbl :=
                 upsert (body_row kvs (json_data_of kvs) (body_digest kvs)) (translations_tbl w),
              cnx := Closed,
              logged := logged w @ [update_msg @ format_exc env e]\<rparr>) \<and>
         body_row kvs (json_data_of kvs) (body_digest kvs) \<in>
           set (translations_tbl (snd (handler env event w))) \<and>
         hightimes_tbl (snd (handler env event w)) = hightimes_tbl w \<and>
         py_get (err_envelope (update_msg @ format_exc env e)) ''statusCode'' = Inr (PInt 400)"
proof -
  obtain evs where ev: "event = PDict evs"
    using assms(2) by (rule py_item_dict)
  have "handler env event w =
      (Inr (fst (outer_try env event (PDict kvs) w)),
       finally_close (snd (outer_try env event (PDict kvs) w)))"
    using assms(2,3) by (rule handler_parsed)
  with assms have h: "handler env event w =
           (Inr (err_envelope (update_msg @ format_exc env e)),
            w\<lparr>translations_tbl :=
                 upsert (body_row kvs (json_data_of kvs) (body_digest kvs)) (translations_tbl w),
              cnx := Closed,
              logged := logged w @ [update_msg @ format_exc env e]\<rparr>)"
    by (simp add: ev outer_try_verified inner_try_update_fails finally_close_def)
  show ?thesis
    unfolding h by (simp add: upsert_member err_envelope_def dict_get_def)
qed

text \<open>Scenario 5: the status update loses the connection.\<close>

theorem update_failure_keeps_insert_witness:
  "handler (env_of scenario_body None None (Some db_error)) (event_of scenario_body) fresh_world =
     (Inr (err_envelope (update_msg @ trace_text db_error)),
      \<lparr>translations_tbl =
         [body_row (request_kvs (PStr (hex (compute_checksum scenario_data))))
            (json_data_of (request_kvs (PStr (hex (compute_checksum scenario_data)))))
            (compute_checksum scenario_data)],
       hightimes_tbl = [(Val (PStr ''A1''), ''new'')], cnx = Closed,
       logged = [update_msg @ trace_text db_error]\<rparr>)"
proof -
  let ?env = "env_of scenario_body None None (Some db_error)"
  let ?kvs = "request_kvs (PStr (hex (compute_checksum scenario_data)))"
  have a: "cnx fresh_world = Unopened"
    by (simp add: fresh_world_def)
  have b: "py_item (event_of scenario_body) ''body'' = Inr (PStr (json_dumps scenario_body))"
    by (rule event_of_item)
  have c: "json_loads ?env (PStr (json_dumps scenario_body)) = Inr (PDict ?kvs)"
    using env_of_simps(1) [of scenario_body None None "Some db_error"]
    by (simp only: scenario_body_def request_def)
  have d: "dict_get ?kvs ''checksum'' = PStr (hex (body_digest ?kvs))"
    by (simp add: request_gets request_digest)
  have f: "select_count (translations_tbl fresh_world) (Val (dict_get ?kvs ''id''))
             (Bytes (body_digest ?kvs)) = 0"
    by (simp add: fresh_world_def select_count_def)
  from update_failure_keeps_insert [OF a b c d _ _ _ f, of db_error] show ?thesis
    by (simp add: env_of_simps request_digest fresh_world_def upsert_def)
qed

text \<open>
  Claim C6 (failure containment) at an event without the key \<^verbatim>\<open>body\<close>, and at an event
  whose body is no JSON: line 74 stands before the \<^verbatim>\<open>try\<close>, and the KeyError and the
  JSONDecodeError leave the handler.
\<close>

theorem missing_body_propagates:
  "handler env (PDict []) w = (Inl (Exn ''KeyError'' ([squote] @ ''body'' @ [squote])), w) \<and>
   handler (env\<lparr>json_loads := loads_table []\<rparr>) (PDict [(''body'', PStr ''{'')]) w =
     (Inl (Exn ''JSONDecodeError'' ''Expecting value''), w)"
  by (simp add: handler_def repr_str_def repr_quote_def repr_char_def printable_def
        squote_def dquote_def bslash_def Let_def)





text \<open>
  Claim C8 (resource release): an invocation that starts without a connection never ends
  with an open one, whatever the event and whichever call raises: a connection that
  \<^verbatim>\<open>make_connection\<close> opened is closed by the \<^verbatim>\<open>finally\<close> block.
\<close>

theorem connection_released:
  assumes "cnx w = Unopened"
  shows "cnx (snd (handler env event w)) \<noteq> Opened"
  using assms
  by (auto simp: handler_def outer_try_def try_body_def inner_try_def inner_body_def
        insert_step_def update_step_def insert_row_def insert_failure_def log_err_def
        finally_close_def Let_def
        split: sum.splits option.splits prod.splits if_splits pyval.splits)

text \<open>The connection of scenario 1.\<close>

theorem connection_released_witness:
  "cnx fresh_world = Unopened \<and>
   cnx (snd (handler (env_of scenario_body None None None) (event_of scenario_body)
               fresh_world)) \<noteq> Opened"
proof -
  have a: "cnx fresh_world = Unopened"
    by (simp add: fresh_world_def)
  from a connection_released [OF a] show ?thesis
    by simp
qed

text \<open>
  Claim C9 (strict string comparison): the handler compares the checksum field, as a Python
  value, with the string of the lower-case hexadecimal digits of the digest. A field equal to
  that string passes; any other value, whatever it decodes to, gets the mismatch response
  with status 500.
\<close>

theorem checksum_compared_as_string:
  assumes "py_item event ''body'' = Inr raw" and "json_loads env raw = Inr (PDict kvs)"
    and "dict_get kvs ''checksum'' = c"
  shows "(c = PStr (hex (body_digest kvs)) \<longrightarrow>
            fst (handler env event w) \<noteq> Inr mismatch_response) \<and>
         (c \<noteq> PStr (hex (body_digest kvs)) \<longrightarrow>
            fst (handler env event w) = Inr mismatch_response \<and>
            py_get mismatch_response ''statusCode'' = Inr (PInt 500) \<and>
            py_get mismatch_response ''body'' =
              Inr (PStr ''Data corruption. Checksums are not the same.''))"
proof -
  obtain evs where ev: "event = PDict evs"
    using assms(1) by (rule py_item_dict)
  have h: "handler env event w =
      (Inr (fst (outer_try env event (PDict kvs) w)),
       finally_close (snd (outer_try env event (PDict kvs) w)))"
    using assms(1,2) by (rule handler_parsed)
  show ?thesis
  proof (cases "c = PStr (hex (body_digest kvs))")
    case True
    with assms(3) have "dict_get kvs ''checksum'' = PStr (hex (body_digest kvs))"
      by simp
    from outer_try_verified_outcome [OF this, of env evs w] h True show ?thesis
      by (simp add: ev)
  next
    case False
    with assms(3) h show ?thesis
      by (simp add: ev outer_try_mismatch mismatch_response_def dict_get_def)
  qed
qed

text \<open>
  The upper-case hexadecimal digits of the right digest decode to it and are refused.
\<close>

theorem checksum_compared_as_string_witness:
  "unhex upper_hex = Some (compute_checksum scenario_data) \<and>
   fst (handler (env_of (request (PStr upper_hex)) None None None)
          (event_of (request (PStr upper_hex))) fresh_world) = Inr mismatch_response"
proof -
  have a: "py_item (event_of (request (PStr upper_hex))) ''body'' =
             Inr (PStr (json_dumps (request (PStr upper_hex))))"
    by (rule event_of_item)
  have b: "json_loads (env_of (request (PStr upper_hex)) None None None)
             (PStr (json_dumps (request (PStr upper_hex)))) =
             Inr (PDict (request_kvs (PStr upper_hex)))"
    using env_of_simps(1) [of "request (PStr upper_hex)" None None None]
    by (simp only: request_def)
  have c: "dict_get (request_kvs (PStr upper_hex)) ''checksum'' = PStr upper_hex"
    by (simp add: request_gets)
  from checksum_compared_as_string [OF a b c, of fresh_world] upper_hex_differs
  show ?thesis
    by (simp add: request_digest upper_hex_decodes)
qed

text \<open>
  Claim C10 as the spec words it fails at the request of scenario 1: a duplicate check that
  raises and an INSERT that raises do not get the same outcome. The first gets the status-400
  envelope with the INSERT message, the second the dictionary with the one key
  \<^verbatim>\<open>[ERROR]\<close>.
\<close>

theorem duplicate_check_not_conflated_counterexample:
  "fst (handler (env_of scenario_body (Some db_error) None None) (event_of scenario_body)
          fresh_world) = Inr (err_envelope (insert_msg @ trace_text db_error)) \<and>
   fst (handler (env_of scenario_body None (Some db_error) None) (event_of scenario_body)
          fresh_world) = Inr (error_dict (exn_str db_error @ '' : None : A1'')) \<and>
   err_envelope (insert_msg @ trace_text db_error) \<noteq>
     error_dict (exn_str db_error @ '' : None : A1'')"
proof -
  have "fst (handler (env_of scenario_body (Some db_error) None None) (event_of scenario_body)
          fresh_world) = Inr (err_envelope (insert_msg @ trace_text db_error))"
    by (simp add: scenario_body_def handler_request outer_try_verified inner_try_select_fails
        request_gets request_digest env_of_simps)
  moreover
  have "fst (handler (env_of scenario_body None (Some db_error) None) (event_of scenario_body)
          fresh_world) = Inr (error_dict (exn_str db_error @ '' : None : A1''))"
    by (simp add: scenario_body_def handler_request outer_try_verified inner_try_insert_fails
        request_gets request_digest env_of_simps fresh_world_def select_count_def event_of_id)
  moreover
  have "err_envelope (insert_msg @ trace_text db_error) \<noteq>
          error_dict (exn_str db_error @ '' : None : A1'')"
    by (simp add: err_envelope_def error_dict_def)
  ultimately show ?thesis by simp
qed

text \<open>
  Claim C10, amended (a failed duplicate check): when the SELECT of the duplicate check
  raises, the handler returns the status-400 envelope whose body is the INSERT message
  followed by the trace text, and neither table has changed. The outcome is the duplicate
  check's own: had the SELECT gone through and the INSERT raised, the same request would get
  the already-exists response or the dictionary with the one key \<^verbatim>\<open>[ERROR]\<close>; and whatever
  the INSERT and the UPDATE do, without a raising SELECT no response is an envelope with the
  INSERT message.
\<close>

theorem duplicate_check_failure_outcome:
  assumes "cnx w = Unopened"
    and "py_item event ''body'' = Inr raw" and "json_loads env raw = Inr (PDict kvs)"
    and "dict_get kvs ''checksum'' = PStr (hex (body_digest kvs))"
    and "connect_err env = None" and "cursor_err env = None" and "select_err env = Some e"
    and "py_get event ''id'' = Inr eid"
  shows "handler env event w =
           (Inr (err_envelope (insert_msg @ format_exc env e)),
            w\<lparr>cnx := Closed, logged := logged w @ [insert_msg @ format_exc env e]\<rparr>) \<and>
         py_get (err_envelope (insert_msg @ format_exc env e)) ''statusCode'' = Inr (PInt 400) \<and>
         translations_tbl (snd (handler env event w)) = translations_tbl w \<and>
         hightimes_tbl (snd (handler env event w)) = hightimes_tbl w \<and>
         fst (handler (env\<lparr>select_err := None, insert_err := Some e'\<rparr>) event w) =
           Inr (if 0 < select_count (translations_tbl w) (Val (dict_get kvs ''id''))
                        (Bytes (body_digest kvs))
                then exists_response
                else error_dict (exn_str e' @ '' : '' @ py_str eid @ '' : ''
                                 @ py_str (dict_get kvs ''id''))) \<and>
         fst (handler (env\<lparr>select_err := None\<rparr>) event w) \<noteq>
           Inr (err_envelope (insert_msg @ msg))"
proof -
  obtain evs where ev: "event = PDict evs"
    using assms(2) by (rule py_item_dict)
  from assms(8) have eid: "dict_get evs ''id'' = eid"
    by (simp add: ev)
  have "handler env event w =
      (Inr (fst (outer_try env event (PDict kvs) w)),
       finally_close (snd (outer_try env event (PDict kvs) w)))"
    using assms(2,3) by (rule handler_parsed)
  with assms(1,4-7) have h: "handler env event w =
           (Inr (err_envelope (insert_msg @ format_exc env e)),
            w\<lparr>cnx := Closed, logged := logged w @ [insert_msg @ format_exc env e]\<rparr>)"
    by (simp add: ev outer_try_verified inner_try_select_fails finally_close_def)
  let ?ins = "env\<lparr>select_err := None, insert_err := Some e'\<rparr>"
  have "json_loads ?ins raw = Inr (PDict kvs)"
    using assms(3) by simp
  with assms(2) have "handler ?ins event w =
      (Inr (fst (outer_try ?ins event (PDict kvs) w)),
       finally_close (snd (outer_try ?ins event (PDict kvs) w)))"
    by (rule handler_parsed)
  with assms(4-6) eid have i: "fst (handler ?ins event w) =
           Inr (if 0 < select_count (translations_tbl w) (Val (dict_get kvs ''id''))
                        (Bytes (body_digest kvs))
                then exists_response
                else error_dict (exn_str e' @ '' : '' @ py_str eid @ '' : ''
                                 @ py_str (dict_get kvs ''id'')))"
    by (simp add: ev outer_try_verified inner_try_exists inner_try_insert_fails)
  let ?sel = "env\<lparr>select_err := None\<rparr>"
  have "json_loads ?sel raw = Inr (PDict kvs)"
    using assms(3) by simp
  with assms(2) have "handler ?sel event w =
      (Inr (fst (outer_try ?sel event (PDict kvs) w)),
       finally_close (snd (outer_try ?sel event (PDict kvs) w)))"
    by (rule handler_parsed)
  with assms(4-6) have s: "fst (handler ?sel event w) \<noteq> Inr (err_envelope (insert_msg @ msg))"
    by (auto simp: ev outer_try_verified inner_try_def inner_body_cases insert_step_cases
          update_step_cases log_err_eq err_envelope_def error_dict_def exists_response_def
          success_response_def insert_msg_def update_msg_def
          split: option.splits)
  show ?thesis
    unfolding h using i s by (simp add: err_envelope_def dict_get_def)
qed

text \<open>Scenario 1 with a duplicate check that loses the connection.\<close>

theorem duplicate_check_failure_outcome_witness:
  "handler (env_of scenario_body (Some db_error) None None) (event_of scenario_body) fresh_world =
     (Inr (err_envelope (insert_msg @ trace_text db_error)),
      fresh_world\<lparr>cnx := Closed, logged := [insert_msg @ trace_text db_error]\<rparr>)"
proof -
  let ?env = "env_of scenario_body (Some db_error) None None"
  let ?kvs = "request_kvs (PStr (hex (compute_checksum scenario_data)))"
  have a: "cnx fresh_world = Unopened"
    by (simp add: fresh_world_def)
  have b: "py_item (event_of scenario_body) ''body'' = Inr (PStr (json_dumps scenario_body))"
    by (rule event_of_item)
  have c: "json_loads ?env (PStr (json_dumps scenario_body)) = Inr (PDict ?kvs)"
    using env_of_simps(1) [of scenario_body "Some db_error" None None]
    by (simp only: scenario_body_def request_def)
  have d: "dict_get ?kvs ''checksum'' = PStr (hex (body_digest ?kvs))"
    by (simp add: request_gets request_digest)
  have f: "py_get (event_of scenario_body) ''id'' = Inr PNone"
    by (simp add: event_of_dict event_of_id)
  have "connect_err ?env = None" and "cursor_err ?env = None"
    and "select_err ?env = Some db_error"
    by (simp_all add: env_of_simps)
  from duplicate_check_failure_outcome [OF a b c d this f] show ?thesis
    by (simp add: env_of_simps fresh_world_def)
qed

end
